theory Spec2Isabelle
  imports Main "HOL-Library.Sublist" "HOL-Library.AList"
begin

section \<open>Escaping text for AppleScript string literals\<close>

text \<open>
  The module \<^verbatim>\<open>applescriptEscaping.ts\<close> holds the escaper and the item-removal routine
  that drives OmniFocus through \<^verbatim>\<open>osascript\<close>. A JavaScript string is modelled as a
  \<^typ>\<open>string\<close>, the UTF-8 bytes of its text. The five characters the escaper looks for
  are ASCII and occur in no multi-byte sequence, so replacing them byte by byte is
  replacing them character by character.
\<close>

abbreviation BSL :: char where "BSL \<equiv> CHR 0x5C"
abbreviation DQ :: char where "DQ \<equiv> CHR 0x22"
abbreviation SQ :: char where "SQ \<equiv> CHR 0x27"
abbreviation LF :: char where "LF \<equiv> CHR 0x0A"
abbreviation CR :: char where "CR \<equiv> CHR 0x0D"
abbreviation TAB :: char where "TAB \<equiv> CHR 0x09"

text \<open>The two-character sequence backslash, double quote.\<close>

abbreviation bq :: string where "bq \<equiv> [BSL, DQ]"

text \<open>
  An argument of type \<^verbatim>\<open>string | null | undefined\<close>.
\<close>

datatype js_string_arg = Null | Undefined | Str string

text \<open>
  \<^verbatim>\<open>str.replace(/c/g, rep)\<close> for a pattern that matches the single character \<open>c\<close>
  and a replacement text without \<^verbatim>\<open>$\<close> patterns: every occurrence of \<open>c\<close> in the
  subject is replaced, in one left-to-right scan of the subject.
\<close>

definition replaceAll :: "char \<Rightarrow> string \<Rightarrow> string \<Rightarrow> string" where
  "replaceAll c rep str = concat (map (\<lambda>x. if x = c then rep else [x]) str)"

text \<open>
  \<^verbatim>\<open>escapeForAppleScript\<close> (lines 18-32): a falsy argument (null, undefined, the empty
  string) gives the empty string; otherwise five global replacements run one after the
  other, the backslash first.
\<close>

fun escapeForAppleScript :: "js_string_arg \<Rightarrow> string" where
  "escapeForAppleScript Null = []"
| "escapeForAppleScript Undefined = []"
| "escapeForAppleScript (Str str) =
     (if str = [] then []
      else replaceAll TAB [BSL, CHR ''t'']
            (replaceAll CR [BSL, CHR ''r'']
              (replaceAll LF [BSL, CHR ''n'']
                (replaceAll DQ [BSL, DQ]
                  (replaceAll BSL [BSL, BSL] str)))))"

text \<open>
  What one character of the input becomes in a single pass; used to state that the five
  sequential replacements never rescan text they inserted.
\<close>

definition escapeChar :: "char \<Rightarrow> string" where
  "escapeChar c =
     (if c = BSL then [BSL, BSL]
      else if c = DQ then [BSL, DQ]
      else if c = LF then [BSL, CHR ''n'']
      else if c = CR then [BSL, CHR ''r'']
      else if c = TAB then [BSL, CHR ''t'']
      else [c])"

text \<open>
  The reader of a double-quoted AppleScript string literal, as the escaper's own
  documentation describes it (lines 8-11): inside the quotes, backslash-quote is a double
  quote, backslash-backslash a backslash, and backslash-n, -r, -t are the control
  characters. \<open>readLiteralBody\<close> reads from just after the opening quote; it returns
  the text the literal denotes and the input that follows the closing quote, and
  \<open>None\<close> when the literal is not closed or uses another escape.
\<close>

definition unescapeChar :: "char \<Rightarrow> char option" where
  "unescapeChar e =
     (if e = DQ then Some DQ
      else if e = BSL then Some BSL
      else if e = CHR ''n'' then Some LF
      else if e = CHR ''r'' then Some CR
      else if e = CHR ''t'' then Some TAB
      else None)"

fun readLiteralBody :: "string \<Rightarrow> (string \<times> string) option" where
  "readLiteralBody [] = None"
| "readLiteralBody (c # cs) =
     (if c = DQ then Some ([], cs)
      else if c = BSL then
        (case cs of
           [] \<Rightarrow> None
         | e # cs' \<Rightarrow>
             (case unescapeChar e of
                None \<Rightarrow> None
              | Some d \<Rightarrow> map_option (\<lambda>(s, rest). (d # s, rest)) (readLiteralBody cs')))
      else map_option (\<lambda>(s, rest). (c # s, rest)) (readLiteralBody cs))"

section \<open>Generating the removal script\<close>

datatype item_type = Task | Project

text \<open>\<^verbatim>\<open>RemoveItemParams\<close> (lines 51-55); an optional field that is left out is \<open>None\<close>.\<close>

record RemoveItemParams =
  id_param :: "string option"
  name_param :: "string option"
  itemType :: item_type

definition optional :: "string option \<Rightarrow> js_string_arg" where
  "optional v = (case v of None \<Rightarrow> Undefined | Some s \<Rightarrow> Str s)"

text \<open>
  The template literals of \<^verbatim>\<open>generateAppleScript\<close>, character for character, one source
  line per line: the script for a request without identifier (line 68), the prologue
  (lines 72-89), the search by id for a task (94-106) and for a project (108-113), the
  search by name alone (120-132, 134-139), the search by name after a search by id
  (143-157, 159-166), and the epilogue that deletes the item and reports (171-191).
\<close>

definition invalidRequestScript :: "string" where
  \<open>invalidRequestScript =
     ''return "{'' @ bq @ ''success'' @ bq @ '':false,'' @ bq @ ''error'' @ bq @ '':'' @ bq @ ''Either id or name must be provided'' @ bq @ ''}"''\<close>

definition scriptPrologue :: "string" where
  \<open>scriptPrologue =
     ''use framework "Foundation"\<newline>'' @
     ''\<newline>'' @
     ''property NSString : a reference to current application's NSString\<newline>'' @
     ''property NSJSONSerialization : a reference to current application's NSJSONSerialization\<newline>'' @
     ''\<newline>'' @
     ''on escapeForJSON(theText)\<newline>'' @
     ''  set nsStr to NSString's stringWithString:theText\<newline>'' @
     ''  set jsonData to NSJSONSerialization's dataWithJSONObject:{nsStr} options:0 |error|:(missing value)\<newline>'' @
     ''  set jsonArrayString to (NSString's alloc()'s initWithData:jsonData encoding:4) as text\<newline>'' @
     ''  return text 3 thru -3 of jsonArrayString\<newline>'' @
     ''end escapeForJSON\<newline>'' @
     ''\<newline>'' @
     ''try\<newline>'' @
     ''  tell application "OmniFocus"\<newline>'' @
     ''    tell front document\<newline>'' @
     ''      -- Find the item to remove\<newline>'' @
     ''      set foundItem to missing value\<newline>''\<close>

definition taskIdSearch :: "string \<Rightarrow> string" where
  \<open>taskIdSearch id' =
     ''\<newline>'' @
     ''        -- Try to find task by ID (search in projects first, then inbox)\<newline>'' @
     ''        try\<newline>'' @
     ''          set foundItem to first flattened task where id = "'' @ id' @ ''"\<newline>'' @
     ''        end try\<newline>'' @
     ''        \<newline>'' @
     ''        -- If not found in projects, search in inbox\<newline>'' @
     ''        if foundItem is missing value then\<newline>'' @
     ''          try\<newline>'' @
     ''            set foundItem to first inbox task where id = "'' @ id' @ ''"\<newline>'' @
     ''          end try\<newline>'' @
     ''        end if\<newline>''\<close>

definition projectIdSearch :: "string \<Rightarrow> string" where
  \<open>projectIdSearch id' =
     ''\<newline>'' @
     ''        -- Try to find project by ID\<newline>'' @
     ''        try\<newline>'' @
     ''          set foundItem to first flattened project where id = "'' @ id' @ ''"\<newline>'' @
     ''        end try\<newline>''\<close>

definition taskNameSearch :: "string \<Rightarrow> string" where
  \<open>taskNameSearch name' =
     ''\<newline>'' @
     ''        -- Find task by name (search in projects first, then inbox)\<newline>'' @
     ''        try\<newline>'' @
     ''          set foundItem to first flattened task where name = "'' @ name' @ ''"\<newline>'' @
     ''        end try\<newline>'' @
     ''        \<newline>'' @
     ''        -- If not found in projects, search in inbox\<newline>'' @
     ''        if foundItem is missing value then\<newline>'' @
     ''          try\<newline>'' @
     ''            set foundItem to first inbox task where name = "'' @ name' @ ''"\<newline>'' @
     ''          end try\<newline>'' @
     ''        end if\<newline>''\<close>

definition projectNameSearch :: "string \<Rightarrow> string" where
  \<open>projectNameSearch name' =
     ''\<newline>'' @
     ''        -- Find project by name\<newline>'' @
     ''        try\<newline>'' @
     ''          set foundItem to first flattened project where name = "'' @ name' @ ''"\<newline>'' @
     ''        end try\<newline>''\<close>

definition taskNameFallback :: "string \<Rightarrow> string" where
  \<open>taskNameFallback name' =
     ''\<newline>'' @
     ''        -- If ID search failed, try to find by name as fallback\<newline>'' @
     ''        if foundItem is missing value then\<newline>'' @
     ''          try\<newline>'' @
     ''            set foundItem to first flattened task where name = "'' @ name' @ ''"\<newline>'' @
     ''          end try\<newline>'' @
     ''        end if\<newline>'' @
     ''        \<newline>'' @
     ''        -- If still not found, search in inbox\<newline>'' @
     ''        if foundItem is missing value then\<newline>'' @
     ''          try\<newline>'' @
     ''            set foundItem to first inbox task where name = "'' @ name' @ ''"\<newline>'' @
     ''          end try\<newline>'' @
     ''        end if\<newline>''\<close>

definition projectNameFallback :: "string \<Rightarrow> string" where
  \<open>projectNameFallback name' =
     ''\<newline>'' @
     ''        -- If ID search failed, try to find project by name as fallback\<newline>'' @
     ''        if foundItem is missing value then\<newline>'' @
     ''          try\<newline>'' @
     ''            set foundItem to first flattened project where name = "'' @ name' @ ''"\<newline>'' @
     ''          end try\<newline>'' @
     ''        end if\<newline>''\<close>

definition scriptEpilogue :: "string" where
  \<open>scriptEpilogue =
     ''\<newline>'' @
     ''        -- If we found the item, remove it\<newline>'' @
     ''        if foundItem is not missing value then\<newline>'' @
     ''          set itemName to name of foundItem\<newline>'' @
     ''          set itemId to id of foundItem as string\<newline>'' @
     ''\<newline>'' @
     ''          -- Delete the item\<newline>'' @
     ''          delete foundItem\<newline>'' @
     ''\<newline>'' @
     ''          -- Return success (escape name for JSON)\<newline>'' @
     ''          return "{'' @ bq @ ''success'' @ bq @ '':true,'' @ bq @ ''id'' @ bq @ '':'' @ bq @ ''" & itemId & "'' @ bq @ '','' @ bq @ ''name'' @ bq @ '':'' @ bq @ ''" & my escapeForJSON(itemName) & "'' @ bq @ ''}"\<newline>'' @
     ''        else\<newline>'' @
     ''          -- Item not found\<newline>'' @
     ''          return "{'' @ bq @ ''success'' @ bq @ '':false,'' @ bq @ ''error'' @ bq @ '':'' @ bq @ ''Item not found'' @ bq @ ''}"\<newline>'' @
     ''        end if\<newline>'' @
     ''      end tell\<newline>'' @
     ''    end tell\<newline>'' @
     ''  on error errorMessage\<newline>'' @
     ''    return "{'' @ bq @ ''success'' @ bq @ '':false,'' @ bq @ ''error'' @ bq @ '':'' @ bq @ ''" & my escapeForJSON(errorMessage) & "'' @ bq @ ''}"\<newline>'' @
     ''  end try\<newline>'' @
     ''  ''\<close>

text \<open>
  \<^verbatim>\<open>generateAppleScript\<close> (lines 60-194). An empty escaped text is falsy, as in the
  source's \<^verbatim>\<open>if (id)\<close> and \<^verbatim>\<open>if (!id && name)\<close>.
\<close>

definition generateAppleScript :: "RemoveItemParams \<Rightarrow> string" where
  "generateAppleScript params =
     (let id' = escapeForAppleScript (optional (id_param params));
          name' = escapeForAppleScript (optional (name_param params));
          itemType' = itemType params
      in if id' = [] \<and> name' = [] then invalidRequestScript
         else
           let script = scriptPrologue;
               script =
                 (if id' \<noteq> [] then
                    (if itemType' = Task then script @ taskIdSearch id'
                     else script @ projectIdSearch id')
                  else script);
               script =
                 (if id' = [] \<and> name' \<noteq> [] then
                    (if itemType' = Task then script @ taskNameSearch name'
                     else script @ projectNameSearch name')
                  else if id' \<noteq> [] \<and> name' \<noteq> [] then
                    (if itemType' = Task then script @ taskNameFallback name'
                     else script @ projectNameFallback name')
                  else script);
               script = script @ scriptEpilogue
           in script)"

text \<open>
  The shape the generated script is checked against: one lookup statement, and the guard
  that runs a lookup only while nothing has been found yet, with the indentation the
  templates give it.
\<close>

definition lookupStatement :: "string \<Rightarrow> string \<Rightarrow> string \<Rightarrow> string" where
  \<open>lookupStatement collection field v =
     ''set foundItem to first '' @ collection @ '' where '' @ field @ '' = "'' @ v @ ''"''\<close>

definition ifNotFound :: "string \<Rightarrow> string" where
  \<open>ifNotFound stmt =
     ''if foundItem is missing value then\<newline>'' @
     ''          try\<newline>'' @
     ''            '' @ stmt @ ''\<newline>'' @
     ''          end try\<newline>'' @
     ''        end if''\<close>

text \<open>\<^verbatim>\<open>String.prototype.includes\<close>: the pattern occurs somewhere in the subject.\<close>

primrec str_includes :: "string \<Rightarrow> string \<Rightarrow> bool" where
  "str_includes [] pat = (pat = [])"
| "str_includes (c # cs) pat = (prefix pat (c # cs) \<or> str_includes cs pat)"

section \<open>JSON values and \<^verbatim>\<open>JSON.parse\<close>\<close>

text \<open>
  \<^verbatim>\<open>JSON.parse\<close> is the ECMAScript built-in; it is modelled after the JSON grammar
  (ECMA-404). A number keeps its token text (its floating-point value is not
  interpreted). Text is a sequence of UTF-8 bytes, so a \<^verbatim>\<open>\u\<close> escape stands for the
  bytes of its code point. An object keeps its members in insertion order, and a repeated
  key overwrites the earlier value.
\<close>

datatype json =
    JNull
  | JBool bool
  | JNumber string
  | JString string
  | JArray "json list"
  | JObject "(string \<times> json) list"

datatype js_error = Error string | SyntaxError string | TypeError string

fun message :: "js_error \<Rightarrow> string" where
  "message (Error m) = m"
| "message (SyntaxError m) = m"
| "message (TypeError m) = m"

subsection \<open>Tokens\<close>

datatype token =
  TLBrace | TRBrace | TLBracket | TRBracket | TColon | TComma | TScalar json

definition isDigit :: "char \<Rightarrow> bool" where
  "isDigit c = (c \<in> set ''0123456789'')"

definition isJsonSpace :: "char \<Rightarrow> bool" where
  "isJsonSpace c = (c = CHR '' '' \<or> c = LF \<or> c = CR \<or> c = TAB)"

definition hexDigit :: "char \<Rightarrow> nat option" where
  "hexDigit c =
     (let n = (of_char c :: nat)
      in if 48 \<le> n \<and> n \<le> 57 then Some (n - 48)
         else if 65 \<le> n \<and> n \<le> 70 then Some (n - 55)
         else if 97 \<le> n \<and> n \<le> 102 then Some (n - 87)
         else None)"

text \<open>The number denoted by the first four characters, when they are hexadecimal digits.\<close>

fun hex4 :: "string \<Rightarrow> nat option" where
  "hex4 (a # b # c # d # rest) =
     (case (hexDigit a, hexDigit b, hexDigit c, hexDigit d) of
        (Some w, Some x, Some y, Some z) \<Rightarrow> Some (((w * 16 + x) * 16 + y) * 16 + z)
      | _ \<Rightarrow> None)"
| "hex4 _ = None"

definition utf8 :: "nat \<Rightarrow> string" where
  "utf8 n =
     (if n < 0x80 then [char_of n]
      else if n < 0x800 then [char_of (0xC0 + n div 0x40), char_of (0x80 + n mod 0x40)]
      else if n < 0x10000 then
        [char_of (0xE0 + n div 0x1000), char_of (0x80 + n div 0x40 mod 0x40),
         char_of (0x80 + n mod 0x40)]
      else
        [char_of (0xF0 + n div 0x40000), char_of (0x80 + n div 0x1000 mod 0x40),
         char_of (0x80 + n div 0x40 mod 0x40), char_of (0x80 + n mod 0x40)])"

text \<open>
  A low surrogate written as a \<^verbatim>\<open>\u\<close> escape at the head of the input: it completes a
  high surrogate that was read just before.
\<close>

definition lowSurrogateEscape :: "string \<Rightarrow> nat option" where
  "lowSurrogateEscape cs =
     (case cs of
        c # u # rest \<Rightarrow>
          (if c = BSL \<and> u = CHR ''u'' then
             (case hex4 rest of
                Some m \<Rightarrow> if 0xDC00 \<le> m \<and> m < 0xE000 then Some m else None
              | None \<Rightarrow> None)
           else None)
      | _ \<Rightarrow> None)"

definition simpleEscape :: "char \<Rightarrow> char option" where
  "simpleEscape e =
     (if e = DQ then Some DQ
      else if e = BSL then Some BSL
      else if e = CHR ''/'' then Some (CHR ''/'')
      else if e = CHR ''b'' then Some (CHR 0x08)
      else if e = CHR ''f'' then Some (CHR 0x0C)
      else if e = CHR ''n'' then Some LF
      else if e = CHR ''r'' then Some CR
      else if e = CHR ''t'' then Some TAB
      else None)"

definition prepend :: "string \<Rightarrow> (string \<times> string) option \<Rightarrow> (string \<times> string) option" where
  "prepend s r = map_option (\<lambda>(t, rest). (s @ t, rest)) r"

text \<open>
  A JSON string, read from just after its opening quote: the text it denotes and the
  input after its closing quote. Control characters must be escaped.
\<close>

fun readJsonString :: "string \<Rightarrow> (string \<times> string) option" where
  "readJsonString [] = None"
| "readJsonString (c # cs) =
     (if c = DQ then Some ([], cs)
      else if c = BSL then
        (case cs of
           [] \<Rightarrow> None
         | e # cs' \<Rightarrow>
             (if e = CHR ''u'' then
                (case hex4 cs' of
                   None \<Rightarrow> None
                 | Some n \<Rightarrow>
                     (case (if 0xD800 \<le> n \<and> n < 0xDC00 then lowSurrogateEscape (drop 4 cs')
                            else None) of
                        Some m \<Rightarrow>
                          prepend (utf8 (0x10000 + (n - 0xD800) * 0x400 + (m - 0xDC00)))
                            (readJsonString (drop 10 cs'))
                      | None \<Rightarrow> prepend (utf8 n) (readJsonString (drop 4 cs'))))
              else
                (case simpleEscape e of
                   None \<Rightarrow> None
                 | Some d \<Rightarrow> prepend [d] (readJsonString cs'))))
      else if (of_char c :: nat) < 0x20 then None
      else prepend [c] (readJsonString cs))"

text \<open>
  A JSON number: an optional minus, an integer part without a leading zero, an optional
  fraction and an optional exponent. The result is the token text and the input after it.
\<close>

definition digits :: "string \<Rightarrow> string \<times> string" where
  "digits cs = (takeWhile isDigit cs, dropWhile isDigit cs)"

definition fraction :: "string \<Rightarrow> (string \<times> string) option" where
  "fraction cs =
     (case cs of
        [] \<Rightarrow> Some ([], cs)
      | c # r \<Rightarrow>
          if c = CHR ''.'' then
            (let (ds, r') = digits r in if ds = [] then None else Some (c # ds, r'))
          else Some ([], cs))"

definition exponent :: "string \<Rightarrow> (string \<times> string) option" where
  "exponent cs =
     (case cs of
        [] \<Rightarrow> Some ([], cs)
      | c # r \<Rightarrow>
          if c = CHR ''e'' \<or> c = CHR ''E'' then
            (let (sign, r') =
                   (case r of
                      [] \<Rightarrow> ([], r)
                    | s # r0 \<Rightarrow> if s = CHR ''+'' \<or> s = CHR ''-'' then ([s], r0) else ([], r));
                 (ds, r'') = digits r'
             in if ds = [] then None else Some (c # sign @ ds, r''))
          else Some ([], cs))"

definition readJsonNumber :: "string \<Rightarrow> (string \<times> string) option" where
  "readJsonNumber cs =
     (let (sign, r0) =
            (case cs of
               [] \<Rightarrow> ([], cs)
             | c # r \<Rightarrow> if c = CHR ''-'' then ([c], r) else ([], cs));
          (intPart, r1) = digits r0
      in if intPart = [] \<or> (hd intPart = CHR ''0'' \<and> 1 < length intPart) then None
         else
           (case fraction r1 of
              None \<Rightarrow> None
            | Some (frac, r2) \<Rightarrow>
                (case exponent r2 of
                   None \<Rightarrow> None
                 | Some (ex, r3) \<Rightarrow> Some (sign @ intPart @ frac @ ex, r3))))"

definition scalarToken :: "json \<Rightarrow> token list option \<Rightarrow> token list option" where
  "scalarToken v r = map_option (\<lambda>ts. TScalar v # ts) r"

text \<open>
  Each reader leaves strictly less input than it was given; the tokenizer's recursion
  rests on that.
\<close>

lemma prepend_rest: "prepend s r = Some (t, rest) \<Longrightarrow> \<exists>t'. r = Some (t', rest)"
  by (auto simp: prepend_def)

lemma readJsonString_shorter:
  "readJsonString cs = Some (s, rest) \<Longrightarrow> length rest < length cs"
proof (induction cs arbitrary: s rest rule: readJsonString.induct)
  case 1
  then show ?case by simp
next
  case (2 c cs)
  show ?case
  proof (cases "c = DQ")
    case True
    with "2.prems" show ?thesis by simp
  next
    case False
    with "2.prems" "2.IH" show ?thesis
      by (fastforce split: if_splits list.splits option.splits dest!: prepend_rest)
  qed
qed

lemma digits_rest: "digits cs = (ds, r) \<Longrightarrow> length r \<le> length cs"
  by (auto simp: digits_def length_dropWhile_le)

lemma digits_rest_strict:
  assumes d: "digits cs = (ds, r)" and ne: "ds \<noteq> []"
  shows "length r < length cs"
proof -
  have "length ds + length r = length cs"
    using d by (metis digits_def length_append takeWhile_dropWhile_id prod.inject)
  moreover have "0 < length ds" using ne by simp
  ultimately show ?thesis by linarith
qed

lemma fraction_rest: "fraction cs = Some (f, r) \<Longrightarrow> length r \<le> length cs"
  by (cases cs) (auto simp: fraction_def split: if_splits prod.splits dest: digits_rest)

lemma exponent_rest:
  assumes ex: "exponent cs = Some (f, r)"
  shows "length r \<le> length cs"
proof (cases cs)
  case Nil
  with ex show ?thesis by (simp add: exponent_def)
next
  case (Cons c t)
  show ?thesis
  proof (cases "c = CHR ''e'' \<or> c = CHR ''E''")
    case False
    with Cons ex show ?thesis by (auto simp: exponent_def)
  next
    case True
    obtain sg r' where s:
      "(case t of [] \<Rightarrow> ([], t)
        | s # r0 \<Rightarrow> if s = CHR ''+'' \<or> s = CHR ''-'' then ([s], r0) else ([], t)) = (sg, r')"
      by (cases "(case t of [] \<Rightarrow> ([]::string, t)
                  | s # r0 \<Rightarrow> if s = CHR ''+'' \<or> s = CHR ''-'' then ([s], r0) else ([], t))") auto
    then have l: "length r' \<le> length t" by (auto split: list.splits if_splits)
    obtain ds r'' where d: "digits r' = (ds, r'')" by (cases "digits r'") auto
    from Cons True s d ex have "r = r''"
      by (auto simp: exponent_def split: if_splits)
    with digits_rest[OF d] l Cons show ?thesis by simp
  qed
qed

lemma readJsonNumber_shorter:
  assumes "readJsonNumber cs = Some (lexeme, rest)"
  shows "length rest < length cs"
proof -
  obtain sign r0 where s:
    "(case cs of [] \<Rightarrow> ([], cs)
      | c # r \<Rightarrow> if c = CHR ''-'' then ([c], r) else ([], cs)) = (sign, r0)"
    by (cases "(case cs of [] \<Rightarrow> ([]::string, cs)
                | c # r \<Rightarrow> if c = CHR ''-'' then ([c], r) else ([], cs))") auto
  obtain ip r1 where d: "digits r0 = (ip, r1)" by (cases "digits r0") auto
  have l0: "length r0 \<le> length cs" using s by (auto split: list.splits if_splits)
  from assms s d have ne: "ip \<noteq> []" and
    rest: "\<exists>frac r2 ex. fraction r1 = Some (frac, r2) \<and> exponent r2 = Some (ex, rest)"
    by (auto simp: readJsonNumber_def split: if_splits option.splits)
  from digits_rest_strict[OF d ne] have l1: "length r1 < length r0" .
  from rest obtain frac r2 ex where
    "fraction r1 = Some (frac, r2)" "exponent r2 = Some (ex, rest)" by blast
  then have "length r2 \<le> length r1" "length rest \<le> length r2"
    by (auto dest: fraction_rest exponent_rest)
  with l0 l1 show ?thesis by linarith
qed

text \<open>
  The tokenizer: white space between tokens is skipped; a character that starts no token
  rejects the whole text.
\<close>

function tokenize :: "string \<Rightarrow> token list option" where
  "tokenize [] = Some []"
| "tokenize (c # cs) =
     (if isJsonSpace c then tokenize cs
      else if c = CHR ''{'' then map_option (Cons TLBrace) (tokenize cs)
      else if c = CHR ''}'' then map_option (Cons TRBrace) (tokenize cs)
      else if c = CHR ''['' then map_option (Cons TLBracket) (tokenize cs)
      else if c = CHR '']'' then map_option (Cons TRBracket) (tokenize cs)
      else if c = CHR '':'' then map_option (Cons TColon) (tokenize cs)
      else if c = CHR '','' then map_option (Cons TComma) (tokenize cs)
      else if c = DQ then
        (case readJsonString cs of
           None \<Rightarrow> None
         | Some (s, rest) \<Rightarrow> scalarToken (JString s) (tokenize rest))
      else if c = CHR ''-'' \<or> isDigit c then
        (case readJsonNumber (c # cs) of
           None \<Rightarrow> None
         | Some (lexeme, rest) \<Rightarrow> scalarToken (JNumber lexeme) (tokenize rest))
      else if prefix ''true'' (c # cs) then scalarToken (JBool True) (tokenize (drop 3 cs))
      else if prefix ''false'' (c # cs) then scalarToken (JBool False) (tokenize (drop 4 cs))
      else if prefix ''null'' (c # cs) then scalarToken JNull (tokenize (drop 3 cs))
      else None)"
  by pat_completeness auto
termination
proof (relation "measure length", goal_cases)
  case 1
  show ?case by simp
next
  case (9 c cs x2 x y)
  then have "readJsonString cs = Some (x, y)" by simp
  from readJsonString_shorter[OF this] show ?case by simp
next
  case (10 c cs x2 x y)
  then have "readJsonNumber (c # cs) = Some (x, y)" by simp
  from readJsonNumber_shorter[OF this] show ?case by simp
qed simp_all

subsection \<open>The grammar, as a pushdown automaton over the tokens\<close>

text \<open>
  A frame is a container that is still open: an array with the elements read so far, or
  an object with its members so far and the key that waits for its value.
\<close>

datatype frame =
    ArrayFrame "json list"
  | ObjectFrame "(string \<times> json) list" "string option"

datatype expect =
    AValue          \<comment> \<open>a value must follow\<close>
  | AValueOrClose   \<comment> \<open>just after an opening bracket\<close>
  | AKeyOrClose     \<comment> \<open>just after an opening brace\<close>
  | AKey            \<comment> \<open>after a comma inside an object\<close>
  | AColon          \<comment> \<open>after a key\<close>
  | ACommaOrClose   \<comment> \<open>after a value inside a container\<close>
  | AEnd json       \<comment> \<open>the text's value is complete\<close>

type_synonym parser_state = "frame list \<times> expect"

text \<open>A finished value goes to the innermost open container, or ends the text.\<close>

fun deliver :: "json \<Rightarrow> frame list \<Rightarrow> parser_state option" where
  "deliver v [] = Some ([], AEnd v)"
| "deliver v (ArrayFrame xs # fs) = Some (ArrayFrame (xs @ [v]) # fs, ACommaOrClose)"
| "deliver v (ObjectFrame ms (Some k) # fs) =
     Some (ObjectFrame (AList.update k v ms) None # fs, ACommaOrClose)"
| "deliver v (ObjectFrame ms None # fs) = None"

fun opens :: "token \<Rightarrow> frame list \<Rightarrow> parser_state option" where
  "opens (TScalar v) fs = deliver v fs"
| "opens TLBracket fs = Some (ArrayFrame [] # fs, AValueOrClose)"
| "opens TLBrace fs = Some (ObjectFrame [] None # fs, AKeyOrClose)"
| "opens _ fs = None"

fun closes :: "token \<Rightarrow> frame list \<Rightarrow> parser_state option" where
  "closes TRBracket (ArrayFrame xs # fs) = deliver (JArray xs) fs"
| "closes TRBrace (ObjectFrame ms None # fs) = deliver (JObject ms) fs"
| "closes _ fs = None"

fun key :: "token \<Rightarrow> frame list \<Rightarrow> parser_state option" where
  "key (TScalar (JString k)) (ObjectFrame ms None # fs) =
     Some (ObjectFrame ms (Some k) # fs, AColon)"
| "key _ fs = None"

fun comma :: "frame list \<Rightarrow> parser_state option" where
  "comma (ArrayFrame xs # fs) = Some (ArrayFrame xs # fs, AValue)"
| "comma (ObjectFrame ms None # fs) = Some (ObjectFrame ms None # fs, AKey)"
| "comma _ = None"

fun step :: "parser_state \<Rightarrow> token \<Rightarrow> parser_state option" where
  "step (fs, AValue) t = opens t fs"
| "step (fs, AValueOrClose) t = (if t = TRBracket then closes t fs else opens t fs)"
| "step (fs, AKeyOrClose) t = (if t = TRBrace then closes t fs else key t fs)"
| "step (fs, AKey) t = key t fs"
| "step (fs, AColon) t = (if t = TColon then Some (fs, AValue) else None)"
| "step (fs, ACommaOrClose) t = (if t = TComma then comma fs else closes t fs)"
| "step (fs, AEnd v) t = None"

fun run :: "parser_state \<Rightarrow> token list \<Rightarrow> parser_state option" where
  "run st [] = Some st"
| "run st (t # ts) = (case step st t of None \<Rightarrow> None | Some st' \<Rightarrow> run st' ts)"

text \<open>
  \<^verbatim>\<open>JSON.parse(text)\<close>: the value of the text, or a SyntaxError. The error's
  message differs between engines; the model gives it one fixed text.
\<close>

definition jsonSyntaxError :: js_error where
  "jsonSyntaxError = SyntaxError ''Unexpected token in JSON''"

definition JSON_parse :: "string \<Rightarrow> js_error + json" where
  "JSON_parse text' =
     (case tokenize text' of
        None \<Rightarrow> Inl jsonSyntaxError
      | Some ts \<Rightarrow>
          (case run ([], AValue) ts of
             Some ([], AEnd v) \<Rightarrow> Inr v
           | _ \<Rightarrow> Inl jsonSyntaxError))"

section \<open>Removing an item\<close>

text \<open>
  A JavaScript value that came out of \<^verbatim>\<open>JSON.parse\<close>, or \<^verbatim>\<open>undefined\<close> (\<open>None\<close>).
\<close>

type_synonym js_value = "json option"

text \<open>
  The object \<^verbatim>\<open>removeItem\<close> resolves to. Its declared type is
  \<^verbatim>\<open>{success: boolean, id?: string, name?: string, error?: string}\<close>; at run time each
  field holds whatever was assigned to it. A field that is left out reads as
  \<^verbatim>\<open>undefined\<close>.
\<close>

record RemovalOutcome =
  success :: js_value
  id_result :: js_value
  name_result :: js_value
  error_result :: js_value

text \<open>
  \<^verbatim>\<open>result.k\<close> for the four keys the code reads (\<^verbatim>\<open>success\<close>, \<^verbatim>\<open>id\<close>, \<^verbatim>\<open>name\<close>,
  \<^verbatim>\<open>error\<close>): none of them is inherited from a prototype, so an object gives its own
  member or \<^verbatim>\<open>undefined\<close>, and a number, string, boolean or array gives
  \<^verbatim>\<open>undefined\<close>. Reading a property of \<^verbatim>\<open>null\<close> throws a TypeError.
\<close>

fun getProperty :: "json \<Rightarrow> string \<Rightarrow> js_error + js_value" where
  "getProperty JNull k =
     Inl (TypeError (''Cannot read properties of null (reading '' @ [SQ] @ k @ [SQ] @ '')''))"
| "getProperty (JObject ms) k = Inr (map_of ms k)"
| "getProperty _ k = Inr None"

text \<open>
  The world outside the function: the command lines handed to the shell, in order, and
  the lines written with \<^verbatim>\<open>console.error\<close>. An argument of \<^verbatim>\<open>console.error\<close> is a
  text or an error object.
\<close>

datatype log_arg = Text string | Err js_error

record world =
  spawned :: "string list"
  console :: "log_arg list list"

definition console_error :: "log_arg list \<Rightarrow> world \<Rightarrow> world" where
  "console_error args w = w\<lparr>console := console w @ [args]\<rparr>"

text \<open>
  The execution collaborator, \<^verbatim>\<open>promisify(exec)\<close> of \<^verbatim>\<open>child_process\<close>: given a command
  line it resolves to the process's standard output and standard error, or rejects with
  an \<^verbatim>\<open>Error\<close> object (the process could not start or ended abnormally). What the
  process does is not part of this program, so the collaborator is a parameter.
\<close>

type_synonym collaborator = "string \<Rightarrow> js_error + (string \<times> string)"

definition execAsync ::
  "collaborator \<Rightarrow> string \<Rightarrow> world \<Rightarrow> (js_error + (string \<times> string)) \<times> world" where
  "execAsync exec' command w = (exec' command, w\<lparr>spawned := spawned w @ [command]\<rparr>)"

text \<open>\<^verbatim>\<open>str.split('\n')\<close> and \<^verbatim>\<open>lines.join('\n')\<close>, for the script preview.\<close>

fun split :: "char \<Rightarrow> string \<Rightarrow> string list" where
  "split sep [] = [[]]"
| "split sep (c # cs) =
     (if c = sep then [] # split sep cs
      else (case split sep cs of
              [] \<Rightarrow> [[c]]
            | l # ls \<Rightarrow> (c # l) # ls))"

fun join :: "char \<Rightarrow> string list \<Rightarrow> string" where
  "join sep [] = []"
| "join sep [l] = l"
| "join sep (l # ls) = l @ sep # join sep ls"

definition itemTypeText :: "item_type \<Rightarrow> string" where
  "itemTypeText t = (case t of Task \<Rightarrow> ''task'' | Project \<Rightarrow> ''project'')"

text \<open>\<^verbatim>\<open>v || 'not provided'\<close> for an optional string: absent and empty are falsy.\<close>

definition orNotProvided :: "string option \<Rightarrow> string" where
  "orNotProvided v =
     (case v of None \<Rightarrow> ''not provided'' | Some s \<Rightarrow> if s = [] then ''not provided'' else s)"

text \<open>The command line of line 212: the script between single quotes.\<close>

definition osascriptCommand :: "string \<Rightarrow> string" where
  "osascriptCommand script = ''osascript -e '' @ [SQ] @ script @ [SQ]"

text \<open>
  The inner \<^verbatim>\<open>try\<close> block (lines 221-230): parse the standard output and copy four
  properties of the result. Either step can throw.
\<close>

definition parseResult :: "string \<Rightarrow> js_error + RemovalOutcome" where
  "parseResult stdout =
     (case JSON_parse stdout of
        Inl e \<Rightarrow> Inl e
      | Inr result \<Rightarrow>
          (case getProperty result ''success'' of
             Inl e \<Rightarrow> Inl e
           | Inr s \<Rightarrow>
               (case getProperty result ''id'' of
                  Inl e \<Rightarrow> Inl e
                | Inr i \<Rightarrow>
                    (case getProperty result ''name'' of
                       Inl e \<Rightarrow> Inl e
                     | Inr n \<Rightarrow>
                         (case getProperty result ''error'' of
                            Inl e \<Rightarrow> Inl e
                          | Inr er \<Rightarrow>
                              Inr \<lparr>success = s, id_result = i, name_result = n,
                                   error_result = er\<rparr>)))))"

text \<open>
  The outer \<^verbatim>\<open>catch\<close> block (lines 238-250). The caught value is an \<^verbatim>\<open>Error\<close>
  object, so \<^verbatim>\<open>error.message\<close> is a text; the empty text is falsy.
\<close>

definition removeItem_catch :: "js_error \<Rightarrow> world \<Rightarrow> (js_error + RemovalOutcome) \<times> world" where
  "removeItem_catch error' w =
     (let w1 = console_error [Text ''Error in removeItem execution:'', Err error'] w;
          w2 = (if message error' \<noteq> [] \<and> str_includes (message error') ''syntax error''
                then console_error
                       [Text ''This appears to be an AppleScript syntax error. Review the script generation logic.'']
                       w1
                else w1)
      in (Inr \<lparr>success = Some (JBool False), id_result = None, name_result = None,
               error_result =
                 Some (JString (if message error' \<noteq> [] then message error'
                                else ''Unknown error in removeItem''))\<rparr>,
          w2))"

text \<open>
  \<^verbatim>\<open>removeItem\<close> (lines 199-251). The result is \<open>Inr\<close> of the outcome the promise
  resolves to, or \<open>Inl\<close> of the value it rejects with, together with the world after
  the call.
\<close>

definition removeItem ::
  "collaborator \<Rightarrow> RemoveItemParams \<Rightarrow> world \<Rightarrow> (js_error + RemovalOutcome) \<times> world" where
  "removeItem exec' params w0 =
     (let script = generateAppleScript params;
          w1 = console_error [Text ''Executing AppleScript for removal...''] w0;
          w2 = console_error
                 [Text (''Item type: '' @ itemTypeText (itemType params) @
                        '', ID: '' @ orNotProvided (id_param params) @
                        '', Name: '' @ orNotProvided (name_param params))] w1;
          scriptPreview = join LF (take 10 (split LF script)) @ [LF] @ ''...'';
          w3 = console_error [Text (''AppleScript preview:'' @ [LF]), Text scriptPreview] w2;
          (r, w4) = execAsync exec' (osascriptCommand script) w3
      in case r of
           Inl error' \<Rightarrow> removeItem_catch error' w4
         | Inr (stdout, stderr) \<Rightarrow>
             (let w5 = (if stderr \<noteq> []
                        then console_error [Text ''AppleScript stderr:'', Text stderr] w4
                        else w4);
                  w6 = console_error [Text ''AppleScript stdout:'', Text stdout] w5
              in case parseResult stdout of
                   Inr outcome \<Rightarrow> (Inr outcome, w6)
                 | Inl parseError \<Rightarrow>
                     (Inr \<lparr>success = Some (JBool False), id_result = None, name_result = None,
                           error_result = Some (JString (''Failed to parse result: '' @ stdout))\<rparr>,
                      console_error
                        [Text ''Error parsing AppleScript result:'', Err parseError] w6)))"

section \<open>What the specification says of outcomes\<close>




text \<open>The outcome \<^verbatim>\<open>{success: false, error: msg}\<close>.\<close>

definition failureOutcome :: "string \<Rightarrow> RemovalOutcome" where
  "failureOutcome msg =
     \<lparr>success = Some (JBool False), id_result = None, name_result = None,
      error_result = Some (JString msg)\<rparr>"

text \<open>
  The payload that the script for a request without identifier returns when it is run.
\<close>

definition invalidRequestPayload :: string where
  \<open>invalidRequestPayload = ''{"success":false,"error":"Either id or name must be provided"}''\<close>

text \<open>
  Collaborators for the examples: one whose process prints a given output and error
  stream, one whose invocation fails with a given message; and a world in which nothing
  has happened yet.
\<close>

definition resolvesWith :: "string \<Rightarrow> string \<Rightarrow> collaborator" where
  "resolvesWith out err = (\<lambda>command. Inr (out, err))"

definition rejectsWith :: "string \<Rightarrow> collaborator" where
  "rejectsWith msg = (\<lambda>command. Inl (Error msg))"

definition emptyWorld :: world where
  "emptyWorld = \<lparr>spawned = [], console = []\<rparr>"

section \<open>Properties of the escaper\<close>

text \<open>
  The five replacements, run one after the other, amount to one pass that translates
  each character of the input by \<open>escapeChar\<close>.
\<close>

lemma replaceAll_Nil: "replaceAll c rep [] = []"
  by (simp add: replaceAll_def)

lemma replaceAll_Cons:
  "replaceAll c rep (x # xs) = (if x = c then rep else [x]) @ replaceAll c rep xs"
  by (simp add: replaceAll_def)

lemma replaceAll_append:
  "replaceAll c rep (xs @ ys) = replaceAll c rep xs @ replaceAll c rep ys"
  by (simp add: replaceAll_def)

lemma five_replacements_Cons:
  "replaceAll TAB [BSL, CHR ''t'']
     (replaceAll CR [BSL, CHR ''r'']
       (replaceAll LF [BSL, CHR ''n'']
         (replaceAll DQ [BSL, DQ]
           (replaceAll BSL [BSL, BSL] (x # xs))))) =
   escapeChar x @
   replaceAll TAB [BSL, CHR ''t'']
     (replaceAll CR [BSL, CHR ''r'']
       (replaceAll LF [BSL, CHR ''n'']
         (replaceAll DQ [BSL, DQ]
           (replaceAll BSL [BSL, BSL] xs))))"
  by (simp add: escapeChar_def replaceAll_Cons replaceAll_append replaceAll_Nil)

lemma escape_single_pass: "escapeForAppleScript (Str s) = concat (map escapeChar s)"
proof -
  have "replaceAll TAB [BSL, CHR ''t'']
     (replaceAll CR [BSL, CHR ''r'']
       (replaceAll LF [BSL, CHR ''n'']
         (replaceAll DQ [BSL, DQ]
           (replaceAll BSL [BSL, BSL] s)))) = concat (map escapeChar s)"
    by (induction s) (simp add: replaceAll_Nil, simp only: five_replacements_Cons, simp)
  then show ?thesis by simp
qed

lemma escapeChar_nonempty: "escapeChar c \<noteq> []"
  by (simp add: escapeChar_def)

lemma escape_empty_iff: "escapeForAppleScript (Str s) = [] \<longleftrightarrow> s = []"
  by (cases s) (simp_all only: escape_single_pass list.map concat.simps append_is_Nil_conv escapeChar_nonempty simp_thms list.simps)

lemma read_escaped:
  "readLiteralBody (concat (map escapeChar s) @ DQ # rest) = Some (s, rest)"
  by (induction s) (simp_all add: escapeChar_def unescapeChar_def)

text \<open>
  Claim C3. For every text, and so for every text that contains a backslash, a double
  quote, a newline, a carriage return or a tab: when the output of
  \<open>escapeForAppleScript\<close> is placed between the double quotes of an AppleScript string
  literal, reading that literal gives back exactly the original text, and the literal
  ends at its own closing quote (what follows it is left untouched).
\<close>

theorem escapeForAppleScript_round_trip:
  "readLiteralBody (escapeForAppleScript (Str s) @ DQ # rest) = Some (s, rest)"
  by (simp only: escape_single_pass read_escaped)

text \<open>
  Claim C9. \<open>escapeForAppleScript\<close> is a total function without effects, and it maps
  null, undefined and the empty text to the empty text.
\<close>

theorem escapeForAppleScript_absent_or_empty:
  "escapeForAppleScript Null = [] \<and> escapeForAppleScript Undefined = [] \<and>
   escapeForAppleScript (Str []) = []"
  by simp

text \<open>
  Claim C10. Because the backslash is replaced first, the two characters backslash,
  double quote become backslash, backslash, backslash, double quote; and in general the
  result of the five replacements is each character of the input translated on its own,
  so no later replacement touches a backslash that an earlier one inserted.
\<close>

theorem escapeForAppleScript_backslash_first:
  "escapeForAppleScript (Str [BSL, DQ]) = [BSL, BSL, BSL, DQ] \<and>
   (\<forall>s. escapeForAppleScript (Str s) = concat (map escapeChar s))"
  by (simp add: escape_single_pass escapeChar_def del: escapeForAppleScript.simps)

section \<open>The structure of the generated script\<close>

text \<open>
  With an identifier, the script is the prologue followed by the search by id; what
  follows depends on the name.
\<close>
lemma generateAppleScript_by_id:
  assumes "escapeForAppleScript (optional (id_param p)) \<noteq> []"
  shows "\<exists>post. generateAppleScript p =
           scriptPrologue @
           (if itemType p = Task then taskIdSearch (escapeForAppleScript (optional (id_param p)))
            else projectIdSearch (escapeForAppleScript (optional (id_param p)))) @ post"
  using assms by (simp add: generateAppleScript_def Let_def)

text \<open>
  Where the lookup statements stand in each template. The text around them does not
  depend on the value searched for.
\<close>
lemma taskIdSearch_shape:
  \<open>\<exists>lead middle.
      (\<forall>v. taskIdSearch v =
             lead @ lookupStatement ''flattened task'' ''id'' v @ middle @
             ifNotFound (lookupStatement ''inbox task'' ''id'' v) @ [LF]) \<and>
      \<not> str_includes (scriptPrologue @ lead) ''where name'' \<and>
      \<not> str_includes middle ''where name''\<close>
  by (rule exI [of _
        \<open>''\<newline>'' @
         ''        -- Try to find task by ID (search in projects first, then inbox)\<newline>'' @
         ''        try\<newline>'' @
         ''          ''\<close>],
      rule exI [of _
        \<open>''\<newline>'' @
         ''        end try\<newline>'' @
         ''        \<newline>'' @
         ''        -- If not found in projects, search in inbox\<newline>'' @
         ''        ''\<close>])
     (simp add: taskIdSearch_def lookupStatement_def ifNotFound_def scriptPrologue_def)

lemma projectIdSearch_shape:
  \<open>\<exists>lead tail. \<forall>v.
      projectIdSearch v = lead @ lookupStatement ''flattened project'' ''id'' v @ tail\<close>
  by (rule exI [of _
        \<open>''\<newline>'' @
         ''        -- Try to find project by ID\<newline>'' @
         ''        try\<newline>'' @
         ''          ''\<close>],
      rule exI [of _ \<open>''\<newline>'' @ ''        end try\<newline>''\<close>])
     (simp add: projectIdSearch_def lookupStatement_def)

lemma taskNameSearch_shape:
  \<open>\<exists>lead middle. \<forall>v.
      taskNameSearch v =
        lead @ lookupStatement ''flattened task'' ''name'' v @ middle @
        ifNotFound (lookupStatement ''inbox task'' ''name'' v) @ [LF]\<close>
  by (rule exI [of _
        \<open>''\<newline>'' @
         ''        -- Find task by name (search in projects first, then inbox)\<newline>'' @
         ''        try\<newline>'' @
         ''          ''\<close>],
      rule exI [of _
        \<open>''\<newline>'' @
         ''        end try\<newline>'' @
         ''        \<newline>'' @
         ''        -- If not found in projects, search in inbox\<newline>'' @
         ''        ''\<close>])
     (simp add: taskNameSearch_def lookupStatement_def ifNotFound_def)

lemma projectNameSearch_shape:
  \<open>\<exists>lead tail. \<forall>v.
      projectNameSearch v = lead @ lookupStatement ''flattened project'' ''name'' v @ tail\<close>
  by (rule exI [of _
        \<open>''\<newline>'' @
         ''        -- Find project by name\<newline>'' @
         ''        try\<newline>'' @
         ''          ''\<close>],
      rule exI [of _ \<open>''\<newline>'' @ ''        end try\<newline>''\<close>])
     (simp add: projectNameSearch_def lookupStatement_def)

lemma taskNameFallback_shape:
  \<open>\<exists>lead middle.
      (\<forall>v. taskNameFallback v =
             lead @ ifNotFound (lookupStatement ''flattened task'' ''name'' v) @ middle @
             ifNotFound (lookupStatement ''inbox task'' ''name'' v) @ [LF]) \<and>
      \<not> str_includes ([LF] @ lead) ''where name'' \<and>
      \<not> str_includes middle ''where name''\<close>
  by (rule exI [of _
        \<open>''\<newline>'' @
         ''        -- If ID search failed, try to find by name as fallback\<newline>'' @
         ''        ''\<close>],
      rule exI [of _
        \<open>''\<newline>'' @
         ''        \<newline>'' @
         ''        -- If still not found, search in inbox\<newline>'' @
         ''        ''\<close>])
     (simp add: taskNameFallback_def lookupStatement_def ifNotFound_def)

lemma projectNameFallback_shape:
  \<open>\<exists>lead. \<forall>v.
      projectNameFallback v =
        lead @ ifNotFound (lookupStatement ''flattened project'' ''name'' v) @ [LF]\<close>
  by (rule exI [of _
        \<open>''\<newline>'' @
         ''        -- If ID search failed, try to find project by name as fallback\<newline>'' @
         ''        ''\<close>])
     (simp add: projectNameFallback_def lookupStatement_def ifNotFound_def)

lemma ifNotFound_shape: \<open>\<exists>a b. \<forall>stmt. ifNotFound stmt = a @ stmt @ b\<close>
  by (rule exI [of _
        \<open>''if foundItem is missing value then\<newline>'' @
         ''          try\<newline>'' @
         ''            ''\<close>],
      rule exI [of _
        \<open>''\<newline>'' @
         ''          end try\<newline>'' @
         ''        end if''\<close>])
     (simp add: ifNotFound_def)

lemma escape_single_quote:
  "escapeForAppleScript (Str (a @ SQ # b)) =
     escapeForAppleScript (Str a) @ SQ # escapeForAppleScript (Str b)"
  by (simp only: escape_single_pass map_append concat_append list.map concat.simps)
     (simp add: escapeChar_def)

lemma id_lookup_in_script:
  assumes "escapeForAppleScript (optional (id_param p)) \<noteq> []"
  shows "\<exists>pre coll post. generateAppleScript p =
           pre @ lookupStatement coll ''id'' (escapeForAppleScript (optional (id_param p))) @ post"
proof -
  define v where "v = escapeForAppleScript (optional (id_param p))"
  from generateAppleScript_by_id [OF assms] obtain post0 where
    g: "generateAppleScript p =
          scriptPrologue @ (if itemType p = Task then taskIdSearch v else projectIdSearch v) @ post0"
    unfolding v_def by blast
  show ?thesis
  proof (cases "itemType p = Task")
    case True
    from taskIdSearch_shape obtain lead middle where
      "taskIdSearch v = lead @ lookupStatement ''flattened task'' ''id'' v @ middle @
         ifNotFound (lookupStatement ''inbox task'' ''id'' v) @ [LF]"
      by blast
    with g True have "generateAppleScript p =
        (scriptPrologue @ lead) @ lookupStatement ''flattened task'' ''id'' v @
        (middle @ ifNotFound (lookupStatement ''inbox task'' ''id'' v) @ [LF] @ post0)"
      by simp
    then show ?thesis unfolding v_def by blast
  next
    case False
    from projectIdSearch_shape obtain lead tail where
      "projectIdSearch v = lead @ lookupStatement ''flattened project'' ''id'' v @ tail"
      by blast
    with g False have "generateAppleScript p =
        (scriptPrologue @ lead) @ lookupStatement ''flattened project'' ''id'' v @ (tail @ post0)"
      by simp
    then show ?thesis unfolding v_def by blast
  qed
qed

lemma name_lookup_in_script:
  assumes "escapeForAppleScript (optional (name_param p)) \<noteq> []"
  shows "\<exists>pre coll post. generateAppleScript p =
           pre @ lookupStatement coll ''name'' (escapeForAppleScript (optional (name_param p))) @ post"
proof -
  define v where "v = escapeForAppleScript (optional (name_param p))"
  define u where "u = escapeForAppleScript (optional (id_param p))"
  from ifNotFound_shape obtain ga gb where guard: "\<And>stmt. ifNotFound stmt = ga @ stmt @ gb"
    by blast
  have nonempty: "v \<noteq> []" using assms by (simp add: v_def)
  consider (task_name) "u = []" "itemType p = Task"
    | (project_name) "u = []" "itemType p \<noteq> Task"
    | (task_fallback) "u \<noteq> []" "itemType p = Task"
    | (project_fallback) "u \<noteq> []" "itemType p \<noteq> Task"
    by blast
  then show ?thesis
  proof cases
    case task_name
    with nonempty have g: "generateAppleScript p = scriptPrologue @ taskNameSearch v @ scriptEpilogue"
      by (simp add: generateAppleScript_def Let_def u_def v_def)
    from taskNameSearch_shape obtain lead middle where
      "taskNameSearch v = lead @ lookupStatement ''flattened task'' ''name'' v @ middle @
         ifNotFound (lookupStatement ''inbox task'' ''name'' v) @ [LF]"
      by blast
    with g have "generateAppleScript p =
        (scriptPrologue @ lead) @ lookupStatement ''flattened task'' ''name'' v @
        (middle @ ifNotFound (lookupStatement ''inbox task'' ''name'' v) @ [LF] @ scriptEpilogue)"
      by simp
    then show ?thesis unfolding v_def by blast
  next
    case project_name
    with nonempty have g: "generateAppleScript p = scriptPrologue @ projectNameSearch v @ scriptEpilogue"
      by (simp add: generateAppleScript_def Let_def u_def v_def)
    from projectNameSearch_shape obtain lead tail where
      "projectNameSearch v = lead @ lookupStatement ''flattened project'' ''name'' v @ tail"
      by blast
    with g have "generateAppleScript p =
        (scriptPrologue @ lead) @ lookupStatement ''flattened project'' ''name'' v @
        (tail @ scriptEpilogue)"
      by simp
    then show ?thesis unfolding v_def by blast
  next
    case task_fallback
    with nonempty have g: "generateAppleScript p =
        scriptPrologue @ taskIdSearch u @ taskNameFallback v @ scriptEpilogue"
      by (simp add: generateAppleScript_def Let_def u_def v_def)
    from taskNameFallback_shape obtain lead middle where
      "taskNameFallback v = lead @ ifNotFound (lookupStatement ''flattened task'' ''name'' v) @
         middle @ ifNotFound (lookupStatement ''inbox task'' ''name'' v) @ [LF]"
      by blast
    with g have "generateAppleScript p =
        (scriptPrologue @ taskIdSearch u @ lead @ ga) @
        lookupStatement ''flattened task'' ''name'' v @
        (gb @ middle @ ifNotFound (lookupStatement ''inbox task'' ''name'' v) @ [LF] @
         scriptEpilogue)"
      by (simp add: guard [of "lookupStatement ''flattened task'' ''name'' v"])
    then show ?thesis unfolding v_def by blast
  next
    case project_fallback
    with nonempty have g: "generateAppleScript p =
        scriptPrologue @ projectIdSearch u @ projectNameFallback v @ scriptEpilogue"
      by (simp add: generateAppleScript_def Let_def u_def v_def)
    from projectNameFallback_shape obtain lead where
      "projectNameFallback v =
         lead @ ifNotFound (lookupStatement ''flattened project'' ''name'' v) @ [LF]"
      by blast
    with g have "generateAppleScript p =
        (scriptPrologue @ projectIdSearch u @ lead @ ga) @
        lookupStatement ''flattened project'' ''name'' v @ (gb @ [LF] @ scriptEpilogue)"
      by (simp add: guard [of "lookupStatement ''flattened project'' ''name'' v"])
    then show ?thesis unfolding v_def by blast
  qed
qed

text \<open>
  The epilogue reads the found item's name and reports it, but looks nothing up by name.
\<close>

lemma scriptEpilogue_no_name_lookup: "\<not> str_includes ([LF] @ scriptEpilogue) ''where name''"
  by (simp add: scriptEpilogue_def)

text \<open>
  An escaped value stays inside the literal it is placed in: read as the body of a
  double-quoted literal, it denotes the original value and ends at the quote after it.
\<close>

lemma escaped_value_contained:
  "readLiteralBody (escapeForAppleScript (Str s) @ DQ # rest) = Some (s, rest)"
  by (simp only: escape_single_pass read_escaped)

text \<open>
  Claim C4. For every request for a task in which both id and name are given (both
  non-empty), the generated script is, in this order: the lookup by id in the flattened
  tasks; the lookup by id in the inbox, inside the guard
  \<^verbatim>\<open>if foundItem is missing value\<close>; then the lookup by name in the flattened tasks and
  the lookup by name in the inbox, each inside the same guard. These two guarded
  statements are the only lookups by name: the text before, between and after the four
  lookups contains none. The values cannot add one either: each lookup compares with a
  double-quoted literal (\<open>lookupStatement\<close> puts the escaped value between quotes),
  and read as the body of that literal the escaped id denotes the id, the escaped name
  denotes the name, and the literal ends at the statement's own closing quote, whatever
  the script goes on with.
\<close>

theorem generateAppleScript_id_lookups_first:
  assumes "i \<noteq> []" and "n \<noteq> []"
  shows "(\<exists>pre mid1 mid2 mid3 post.
     generateAppleScript \<lparr>id_param = Some i, name_param = Some n, itemType = Task\<rparr> =
       pre @ lookupStatement ''flattened task'' ''id'' (escapeForAppleScript (Str i)) @
       mid1 @ ifNotFound (lookupStatement ''inbox task'' ''id'' (escapeForAppleScript (Str i))) @
       mid2 @ ifNotFound (lookupStatement ''flattened task'' ''name'' (escapeForAppleScript (Str n))) @
       mid3 @ ifNotFound (lookupStatement ''inbox task'' ''name'' (escapeForAppleScript (Str n))) @
       post \<and>
     \<not> str_includes pre ''where name'' \<and>
     \<not> str_includes mid1 ''where name'' \<and>
     \<not> str_includes mid2 ''where name'' \<and>
     \<not> str_includes mid3 ''where name'' \<and>
     \<not> str_includes post ''where name'') \<and>
   (\<forall>rest. readLiteralBody (escapeForAppleScript (Str i) @ DQ # rest) = Some (i, rest)) \<and>
   (\<forall>rest. readLiteralBody (escapeForAppleScript (Str n) @ DQ # rest) = Some (n, rest))"
proof -
  define u where "u = escapeForAppleScript (Str i)"
  define v where "v = escapeForAppleScript (Str n)"
  have u: "u \<noteq> []" and v: "v \<noteq> []"
    using assms by (simp_all only: u_def v_def escape_empty_iff not_False_eq_True)
  have g: "generateAppleScript \<lparr>id_param = Some i, name_param = Some n, itemType = Task\<rparr> =
        scriptPrologue @ taskIdSearch u @ taskNameFallback v @ scriptEpilogue"
    using u v unfolding u_def v_def
    by (simp add: generateAppleScript_def Let_def optional_def del: escapeForAppleScript.simps)
  from taskIdSearch_shape obtain lead middle where
    s1: "taskIdSearch u = lead @ lookupStatement ''flattened task'' ''id'' u @ middle @
           ifNotFound (lookupStatement ''inbox task'' ''id'' u) @ [LF]" and
    n1: "\<not> str_includes (scriptPrologue @ lead) ''where name''" and
    n2: "\<not> str_includes middle ''where name''"
    by blast
  from taskNameFallback_shape obtain flead fmiddle where
    s2: "taskNameFallback v = flead @ ifNotFound (lookupStatement ''flattened task'' ''name'' v) @
           fmiddle @ ifNotFound (lookupStatement ''inbox task'' ''name'' v) @ [LF]" and
    n3: "\<not> str_includes ([LF] @ flead) ''where name''" and
    n4: "\<not> str_includes fmiddle ''where name''"
    by blast
  note n5 = scriptEpilogue_no_name_lookup
  have "generateAppleScript \<lparr>id_param = Some i, name_param = Some n, itemType = Task\<rparr> =
       (scriptPrologue @ lead) @ lookupStatement ''flattened task'' ''id'' u @
       middle @ ifNotFound (lookupStatement ''inbox task'' ''id'' u) @
       ([LF] @ flead) @ ifNotFound (lookupStatement ''flattened task'' ''name'' v) @
       fmiddle @ ifNotFound (lookupStatement ''inbox task'' ''name'' v) @
       ([LF] @ scriptEpilogue)"
    by (simp only: g s1 s2 append_assoc)
  with n1 n2 n3 n4 n5 have shape: "\<exists>pre mid1 mid2 mid3 post.
     generateAppleScript \<lparr>id_param = Some i, name_param = Some n, itemType = Task\<rparr> =
       pre @ lookupStatement ''flattened task'' ''id'' u @
       mid1 @ ifNotFound (lookupStatement ''inbox task'' ''id'' u) @
       mid2 @ ifNotFound (lookupStatement ''flattened task'' ''name'' v) @
       mid3 @ ifNotFound (lookupStatement ''inbox task'' ''name'' v) @
       post \<and>
     \<not> str_includes pre ''where name'' \<and>
     \<not> str_includes mid1 ''where name'' \<and>
     \<not> str_includes mid2 ''where name'' \<and>
     \<not> str_includes mid3 ''where name'' \<and>
     \<not> str_includes post ''where name''"
    by blast
  have "\<forall>rest. readLiteralBody (escapeForAppleScript (Str i) @ DQ # rest) = Some (i, rest)"
    and "\<forall>rest. readLiteralBody (escapeForAppleScript (Str n) @ DQ # rest) = Some (n, rest)"
    by (simp_all only: escaped_value_contained simp_thms)
  with shape show ?thesis unfolding u_def v_def by (intro conjI)
qed

text \<open>The request \<^verbatim>\<open>{id: "x", name: "y", itemType: "task"}\<close>.\<close>

theorem generateAppleScript_id_lookups_first_witness:
  "(\<exists>pre mid1 mid2 mid3 post.
     generateAppleScript \<lparr>id_param = Some ''x'', name_param = Some ''y'', itemType = Task\<rparr> =
       pre @ lookupStatement ''flattened task'' ''id'' (escapeForAppleScript (Str ''x'')) @
       mid1 @ ifNotFound (lookupStatement ''inbox task'' ''id'' (escapeForAppleScript (Str ''x''))) @
       mid2 @ ifNotFound (lookupStatement ''flattened task'' ''name'' (escapeForAppleScript (Str ''y''))) @
       mid3 @ ifNotFound (lookupStatement ''inbox task'' ''name'' (escapeForAppleScript (Str ''y''))) @
       post \<and>
     \<not> str_includes pre ''where name'' \<and>
     \<not> str_includes mid1 ''where name'' \<and>
     \<not> str_includes mid2 ''where name'' \<and>
     \<not> str_includes mid3 ''where name'' \<and>
     \<not> str_includes post ''where name'') \<and>
   (\<forall>rest. readLiteralBody (escapeForAppleScript (Str ''x'') @ DQ # rest) = Some (''x'', rest)) \<and>
   (\<forall>rest. readLiteralBody (escapeForAppleScript (Str ''y'') @ DQ # rest) = Some (''y'', rest))"
proof -
  have "''x'' \<noteq> []" and "''y'' \<noteq> []" by simp_all
  then show ?thesis by (rule generateAppleScript_id_lookups_first)
qed

section \<open>What \<^verbatim>\<open>removeItem\<close> does\<close>

text \<open>
  Every call hands exactly one command line to the collaborator, and its result is
  decided by what the collaborator answers.
\<close>

lemma removeItem_spawned:
  "spawned (snd (removeItem exec' p w)) = spawned w @ [osascriptCommand (generateAppleScript p)]"
  by (simp add: removeItem_def Let_def execAsync_def console_error_def removeItem_catch_def
           split: sum.splits prod.splits)

lemma removeItem_result:
  "fst (removeItem exec' p w) =
     (case exec' (osascriptCommand (generateAppleScript p)) of
        Inl e \<Rightarrow>
          Inr (failureOutcome (if message e \<noteq> [] then message e else ''Unknown error in removeItem''))
      | Inr (out, err) \<Rightarrow>
          (case parseResult out of
             Inl pe \<Rightarrow> Inr (failureOutcome (''Failed to parse result: '' @ out))
           | Inr outcome \<Rightarrow> Inr outcome))"
  by (simp add: removeItem_def Let_def execAsync_def removeItem_catch_def failureOutcome_def
           split: sum.splits prod.splits)

lemma parseResult_syntax_error: "JSON_parse out = Inl e \<Longrightarrow> parseResult out = Inl e"
  by (simp add: parseResult_def)


lemma parseResult_object:
  "JSON_parse out = Inr (JObject ms) \<Longrightarrow>
   parseResult out =
     Inr \<lparr>success = map_of ms ''success'', id_result = map_of ms ''id'',
          name_result = map_of ms ''name'', error_result = map_of ms ''error''\<rparr>"
  by (simp add: parseResult_def)



text \<open>
  Claim C1, as the code has it. For the request \<^verbatim>\<open>{itemType: "task"}\<close> without id and
  name, \<open>generateAppleScript\<close> returns the fixed script that returns the payload
  \<^verbatim>\<open>{"success":false,"error":"Either id or name must be provided"}\<close>. \<open>removeItem\<close>
  does not stop there: it hands this script to the execution collaborator like any other,
  so one \<^verbatim>\<open>osascript\<close> command is spawned; when the collaborator prints the script's
  payload, \<open>removeItem\<close> resolves to
  \<^verbatim>\<open>{success: false, error: "Either id or name must be provided"}\<close>.
\<close>

theorem removeItem_invalid_request:
  "generateAppleScript \<lparr>id_param = None, name_param = None, itemType = Task\<rparr> =
     invalidRequestScript \<and>
   (\<exists>lit. invalidRequestScript = ''return '' @ DQ # lit \<and>
          readLiteralBody lit = Some (invalidRequestPayload, [])) \<and>
   spawned (snd (removeItem exec' \<lparr>id_param = None, name_param = None, itemType = Task\<rparr> w)) =
     spawned w @ [osascriptCommand invalidRequestScript] \<and>
   (exec' (osascriptCommand invalidRequestScript) = Inr (invalidRequestPayload @ [LF], stderr) \<longrightarrow>
      fst (removeItem exec' \<lparr>id_param = None, name_param = None, itemType = Task\<rparr> w) =
        Inr (failureOutcome ''Either id or name must be provided''))"
proof -
  let ?p = "\<lparr>id_param = None, name_param = None, itemType = Task\<rparr>"
  have g: "generateAppleScript ?p = invalidRequestScript"
    by (simp add: generateAppleScript_def optional_def)
  have lit: "\<exists>lit. invalidRequestScript = ''return '' @ DQ # lit \<and>
          readLiteralBody lit = Some (invalidRequestPayload, [])"
    by (rule exI [of _ "drop 8 invalidRequestScript"])
       (simp add: invalidRequestScript_def invalidRequestPayload_def unescapeChar_def)
  have s: "spawned (snd (removeItem exec' ?p w)) = spawned w @ [osascriptCommand invalidRequestScript]"
    by (simp only: removeItem_spawned g)
  have parse: "JSON_parse (invalidRequestPayload @ [LF]) =
      Inr (JObject [(''success'', JBool False),
                    (''error'', JString ''Either id or name must be provided'')])"
    by code_simp
  have r: "exec' (osascriptCommand invalidRequestScript) = Inr (invalidRequestPayload @ [LF], stderr) \<longrightarrow>
      fst (removeItem exec' ?p w) = Inr (failureOutcome ''Either id or name must be provided'')"
    by (simp add: removeItem_result g parseResult_object [OF parse] failureOutcome_def)
  from g lit s r show ?thesis by blast
qed

text \<open>A collaborator that runs the script and prints its payload and a newline.\<close>

theorem removeItem_invalid_request_witness:
  "generateAppleScript \<lparr>id_param = None, name_param = None, itemType = Task\<rparr> =
     invalidRequestScript \<and>
   (\<exists>lit. invalidRequestScript = ''return '' @ DQ # lit \<and>
          readLiteralBody lit = Some (invalidRequestPayload, [])) \<and>
   spawned (snd (removeItem (resolvesWith (invalidRequestPayload @ [LF]) [])
                   \<lparr>id_param = None, name_param = None, itemType = Task\<rparr> emptyWorld)) =
     spawned emptyWorld @ [osascriptCommand invalidRequestScript] \<and>
   fst (removeItem (resolvesWith (invalidRequestPayload @ [LF]) [])
          \<lparr>id_param = None, name_param = None, itemType = Task\<rparr> emptyWorld) =
     Inr (failureOutcome ''Either id or name must be provided'')"
proof -
  have h: "resolvesWith (invalidRequestPayload @ [LF]) [] (osascriptCommand invalidRequestScript) =
      Inr (invalidRequestPayload @ [LF], [])"
    by (simp add: resolvesWith_def)
  from removeItem_invalid_request
         [of "resolvesWith (invalidRequestPayload @ [LF]) []" emptyWorld "[]"] h
  show ?thesis by blast
qed

text \<open>
  The request without identifier does reach the collaborator: when the collaborator's
  invocation fails, the command line has been handed over all the same, and the outcome
  carries the failure's message, not the message about the missing identifier.
\<close>

theorem removeItem_invalid_request_spawns:
  "spawned (snd (removeItem (rejectsWith ''spawn /bin/sh ENOENT'')
                   \<lparr>id_param = None, name_param = None, itemType = Task\<rparr> emptyWorld)) =
     [osascriptCommand invalidRequestScript] \<and>
   fst (removeItem (rejectsWith ''spawn /bin/sh ENOENT'')
          \<lparr>id_param = None, name_param = None, itemType = Task\<rparr> emptyWorld) =
     Inr (failureOutcome ''spawn /bin/sh ENOENT'')"
proof -
  have g: "generateAppleScript \<lparr>id_param = None, name_param = None, itemType = Task\<rparr> =
      invalidRequestScript"
    by (simp add: generateAppleScript_def optional_def)
  show ?thesis
    by (simp add: removeItem_spawned removeItem_result g rejectsWith_def emptyWorld_def)
qed



text \<open>
  Claim C5. For every request and every collaborator, \<open>removeItem\<close> resolves to an
  outcome and never rejects. When the collaborator's invocation fails, the outcome is
  \<^verbatim>\<open>{success: false, error: m}\<close>, where \<open>m\<close> is the failure's message, or
  \<^verbatim>\<open>"Unknown error in removeItem"\<close> when the message is empty.
\<close>

theorem removeItem_never_rejects:
  "(\<exists>out. fst (removeItem exec' p w) = Inr out) \<and>
   (exec' (osascriptCommand (generateAppleScript p)) = Inl e \<longrightarrow>
      fst (removeItem exec' p w) =
        Inr (failureOutcome
               (if message e = [] then ''Unknown error in removeItem'' else message e)))"
  by (simp add: removeItem_result split: sum.splits prod.splits)

text \<open>A collaborator whose invocation fails with an empty message.\<close>

theorem removeItem_never_rejects_witness:
  "(\<exists>out. fst (removeItem (rejectsWith [])
                  \<lparr>id_param = Some ''abc123'', name_param = None, itemType = Project\<rparr>
                  emptyWorld) = Inr out) \<and>
   fst (removeItem (rejectsWith [])
          \<lparr>id_param = Some ''abc123'', name_param = None, itemType = Project\<rparr> emptyWorld) =
     Inr (failureOutcome ''Unknown error in removeItem'')"
proof -
  let ?p = "\<lparr>id_param = Some ''abc123'', name_param = None, itemType = Project\<rparr>"
  have h: "rejectsWith [] (osascriptCommand (generateAppleScript ?p)) = Inl (Error [])"
    by (simp add: rejectsWith_def)
  have m: "message (Error []) = []" by simp
  from removeItem_never_rejects [of "rejectsWith []" ?p emptyWorld "Error []"] h m
  show ?thesis by simp
qed

text \<open>
  Claim C6. When the collaborator's standard output is not valid JSON, \<open>removeItem\<close>
  resolves to \<^verbatim>\<open>{success: false, error: "Failed to parse result: " + stdout}\<close>. When it
  parses as a JSON object, the outcome's success, id, name and error are the object's
  properties of these names, as they are.
\<close>

theorem removeItem_maps_stdout:
  "(exec' (osascriptCommand (generateAppleScript p)) = Inr (stdout, stderr) \<and>
    JSON_parse stdout = Inl e \<longrightarrow>
      fst (removeItem exec' p w) =
        Inr (failureOutcome (''Failed to parse result: '' @ stdout))) \<and>
   (exec' (osascriptCommand (generateAppleScript p)) = Inr (stdout, stderr) \<and>
    JSON_parse stdout = Inr (JObject ms) \<longrightarrow>
      fst (removeItem exec' p w) =
        Inr \<lparr>success = map_of ms ''success'', id_result = map_of ms ''id'',
             name_result = map_of ms ''name'', error_result = map_of ms ''error''\<rparr>)"
  by (simp add: removeItem_result parseResult_syntax_error parseResult_object)

text \<open>
  The output \<^verbatim>\<open>Error: syntax error\<close>, and a payload that reports a removed project.
\<close>

theorem removeItem_maps_stdout_witness:
  \<open>fst (removeItem (resolvesWith ''Error: syntax error'' [])
          \<lparr>id_param = Some ''abc123'', name_param = None, itemType = Project\<rparr> emptyWorld) =
     Inr (failureOutcome (''Failed to parse result: '' @ ''Error: syntax error'')) \<and>
   fst (removeItem (resolvesWith ''{"success":true,"id":"abc123","name":"Q3 Planning"}'' [])
          \<lparr>id_param = Some ''abc123'', name_param = None, itemType = Project\<rparr> emptyWorld) =
     Inr \<lparr>success = Some (JBool True), id_result = Some (JString ''abc123''),
          name_result = Some (JString ''Q3 Planning''), error_result = None\<rparr>\<close>
proof -
  let ?p = "\<lparr>id_param = Some ''abc123'', name_param = None, itemType = Project\<rparr>"
  let ?ms = "[(''success'', JBool True), (''id'', JString ''abc123''),
              (''name'', JString ''Q3 Planning'')]"
  have bad: "JSON_parse ''Error: syntax error'' = Inl jsonSyntaxError"
    by code_simp
  have good: \<open>JSON_parse ''{"success":true,"id":"abc123","name":"Q3 Planning"}'' =
      Inr (JObject ?ms)\<close>
    by code_simp
  have r1: "resolvesWith ''Error: syntax error'' [] (osascriptCommand (generateAppleScript ?p)) =
      Inr (''Error: syntax error'', [])"
    by (simp add: resolvesWith_def)
  have r2: \<open>resolvesWith ''{"success":true,"id":"abc123","name":"Q3 Planning"}'' []
        (osascriptCommand (generateAppleScript ?p)) =
      Inr (''{"success":true,"id":"abc123","name":"Q3 Planning"}'', [])\<close>
    by (simp add: resolvesWith_def)
  have fields: "map_of ?ms ''success'' = Some (JBool True)"
    "map_of ?ms ''id'' = Some (JString ''abc123'')"
    "map_of ?ms ''name'' = Some (JString ''Q3 Planning'')"
    "map_of ?ms ''error'' = None"
    by simp_all
  from removeItem_maps_stdout
         [of "resolvesWith ''Error: syntax error'' []" ?p "''Error: syntax error''" "[]"
             jsonSyntaxError emptyWorld] r1 bad
  have first: "fst (removeItem (resolvesWith ''Error: syntax error'' []) ?p emptyWorld) =
      Inr (failureOutcome (''Failed to parse result: '' @ ''Error: syntax error''))"
    by blast
  from removeItem_maps_stdout
         [of \<open>resolvesWith ''{"success":true,"id":"abc123","name":"Q3 Planning"}'' []\<close> ?p
             \<open>''{"success":true,"id":"abc123","name":"Q3 Planning"}''\<close> "[]" _ emptyWorld ?ms]
       r2 good
  have second: \<open>fst (removeItem
                      (resolvesWith ''{"success":true,"id":"abc123","name":"Q3 Planning"}'' [])
                      ?p emptyWorld) =
      Inr \<lparr>success = map_of ?ms ''success'', id_result = map_of ?ms ''id'',
           name_result = map_of ?ms ''name'', error_result = map_of ?ms ''error''\<rparr>\<close>
    by blast
  from first second show ?thesis by (simp only: fields simp_thms)
qed

text \<open>
  Claim C7. The outcome depends on the collaborator's standard output only: two runs of
  the same request whose collaborators complete with the same standard output resolve to
  the same outcome, whatever the two error streams hold and whatever happened before. A
  non-empty error stream is written to the console and decides nothing.
\<close>

theorem removeItem_ignores_stderr:
  assumes "exec1 (osascriptCommand (generateAppleScript p)) = Inr (stdout, stderr1)"
    and "exec2 (osascriptCommand (generateAppleScript p)) = Inr (stdout, stderr2)"
  shows "fst (removeItem exec1 p w1) = fst (removeItem exec2 p w2)"
  using assms by (simp add: removeItem_result)

text \<open>The same not-found payload, once with an empty error stream and once with a warning.\<close>

theorem removeItem_ignores_stderr_witness:
  \<open>fst (removeItem (resolvesWith ''{"success":false,"error":"Item not found"}'' [])
          \<lparr>id_param = None, name_param = Some ''Buy milk'', itemType = Task\<rparr> emptyWorld) =
   fst (removeItem
          (resolvesWith ''{"success":false,"error":"Item not found"}''
             ''osascript: warning'')
          \<lparr>id_param = None, name_param = Some ''Buy milk'', itemType = Task\<rparr> emptyWorld)\<close>
proof -
  let ?p = "\<lparr>id_param = None, name_param = Some ''Buy milk'', itemType = Task\<rparr>"
  have r1: \<open>resolvesWith ''{"success":false,"error":"Item not found"}'' []
        (osascriptCommand (generateAppleScript ?p)) =
      Inr (''{"success":false,"error":"Item not found"}'', [])\<close>
    by (simp add: resolvesWith_def)
  have r2: \<open>resolvesWith ''{"success":false,"error":"Item not found"}'' ''osascript: warning''
        (osascriptCommand (generateAppleScript ?p)) =
      Inr (''{"success":false,"error":"Item not found"}'', ''osascript: warning'')\<close>
    by (simp add: resolvesWith_def)
  from r1 r2 show ?thesis by (rule removeItem_ignores_stderr)
qed

text \<open>
  Claim C8. \<open>escapeForAppleScript\<close> leaves a single quote as it is: the text before
  and after it is escaped, the quote itself is copied. \<open>removeItem\<close> places the script
  between single quotes on the command line \<^verbatim>\<open>osascript -e '...'\<close>, so a single quote
  in the id or in the name stands unescaped inside that command line, in the lookup that
  carries the value.
\<close>

theorem single_quote_reaches_shell:
  "escapeForAppleScript (Str (a @ SQ # b)) =
     escapeForAppleScript (Str a) @ SQ # escapeForAppleScript (Str b) \<and>
   (id_param p = Some (a @ SQ # b) \<longrightarrow>
      (\<exists>pre coll post.
         spawned (snd (removeItem exec' p w)) =
           spawned w @
           [''osascript -e '' @ [SQ] @ pre @
            lookupStatement coll ''id''
              (escapeForAppleScript (Str a) @ SQ # escapeForAppleScript (Str b)) @
            post @ [SQ]])) \<and>
   (name_param p = Some (a @ SQ # b) \<longrightarrow>
      (\<exists>pre coll post.
         spawned (snd (removeItem exec' p w)) =
           spawned w @
           [''osascript -e '' @ [SQ] @ pre @
            lookupStatement coll ''name''
              (escapeForAppleScript (Str a) @ SQ # escapeForAppleScript (Str b)) @
            post @ [SQ]]))"
proof (intro conjI impI)
  show "escapeForAppleScript (Str (a @ SQ # b)) =
     escapeForAppleScript (Str a) @ SQ # escapeForAppleScript (Str b)"
    by (rule escape_single_quote)
next
  define q where "q = escapeForAppleScript (Str a) @ SQ # escapeForAppleScript (Str b)"
  assume "id_param p = Some (a @ SQ # b)"
  then have e: "escapeForAppleScript (optional (id_param p)) = q"
    by (simp only: optional_def option.case escape_single_quote q_def)
  then have "escapeForAppleScript (optional (id_param p)) \<noteq> []" by (simp add: q_def)
  from id_lookup_in_script [OF this] e obtain pre coll post where
    "generateAppleScript p = pre @ lookupStatement coll ''id'' q @ post" by auto
  then have "spawned (snd (removeItem exec' p w)) =
      spawned w @ [''osascript -e '' @ [SQ] @ pre @ lookupStatement coll ''id'' q @ post @ [SQ]]"
    by (simp add: removeItem_spawned osascriptCommand_def)
  then show "\<exists>pre coll post.
         spawned (snd (removeItem exec' p w)) =
           spawned w @
           [''osascript -e '' @ [SQ] @ pre @
            lookupStatement coll ''id''
              (escapeForAppleScript (Str a) @ SQ # escapeForAppleScript (Str b)) @
            post @ [SQ]]"
    unfolding q_def by blast
next
  define q where "q = escapeForAppleScript (Str a) @ SQ # escapeForAppleScript (Str b)"
  assume "name_param p = Some (a @ SQ # b)"
  then have e: "escapeForAppleScript (optional (name_param p)) = q"
    by (simp only: optional_def option.case escape_single_quote q_def)
  then have "escapeForAppleScript (optional (name_param p)) \<noteq> []" by (simp add: q_def)
  from name_lookup_in_script [OF this] e obtain pre coll post where
    "generateAppleScript p = pre @ lookupStatement coll ''name'' q @ post" by auto
  then have "spawned (snd (removeItem exec' p w)) =
      spawned w @ [''osascript -e '' @ [SQ] @ pre @ lookupStatement coll ''name'' q @ post @ [SQ]]"
    by (simp add: removeItem_spawned osascriptCommand_def)
  then show "\<exists>pre coll post.
         spawned (snd (removeItem exec' p w)) =
           spawned w @
           [''osascript -e '' @ [SQ] @ pre @
            lookupStatement coll ''name''
              (escapeForAppleScript (Str a) @ SQ # escapeForAppleScript (Str b)) @
            post @ [SQ]]"
    unfolding q_def by blast
qed

text \<open>The id and name \<^verbatim>\<open>it's\<close>.\<close>

theorem single_quote_reaches_shell_witness:
  "escapeForAppleScript (Str (''it'' @ SQ # ''s'')) =
     escapeForAppleScript (Str ''it'') @ SQ # escapeForAppleScript (Str ''s'') \<and>
   (\<exists>pre coll post.
      spawned (snd (removeItem (resolvesWith [] [])
                      \<lparr>id_param = Some (''it'' @ SQ # ''s''),
                       name_param = Some (''it'' @ SQ # ''s''), itemType = Task\<rparr>
                      emptyWorld)) =
        spawned emptyWorld @
        [''osascript -e '' @ [SQ] @ pre @
         lookupStatement coll ''id''
           (escapeForAppleScript (Str ''it'') @ SQ # escapeForAppleScript (Str ''s'')) @
         post @ [SQ]]) \<and>
   (\<exists>pre coll post.
      spawned (snd (removeItem (resolvesWith [] [])
                      \<lparr>id_param = Some (''it'' @ SQ # ''s''),
                       name_param = Some (''it'' @ SQ # ''s''), itemType = Task\<rparr>
                      emptyWorld)) =
        spawned emptyWorld @
        [''osascript -e '' @ [SQ] @ pre @
         lookupStatement coll ''name''
           (escapeForAppleScript (Str ''it'') @ SQ # escapeForAppleScript (Str ''s'')) @
         post @ [SQ]])"
proof -
  let ?p = "\<lparr>id_param = Some (''it'' @ SQ # ''s''),
             name_param = Some (''it'' @ SQ # ''s''), itemType = Task\<rparr>"
  have a: "id_param ?p = Some (''it'' @ SQ # ''s'')" by (simp only: RemoveItemParams.simps)
  have b: "name_param ?p = Some (''it'' @ SQ # ''s'')" by (simp only: RemoveItemParams.simps)
  from single_quote_reaches_shell [of "''it''" "''s''" ?p "resolvesWith [] []" emptyWorld] a b
  show ?thesis by blast
qed

end
